theory Spec2Isabelle
  imports Main
begin

section \<open>JavaScript values as the handlers see them\<close>

text \<open>
  The server is an Express application; the model follows the version that takes the
  upstream credential from the environment and has the reset-key endpoint. Its handlers
  read \<open>req.body\<close>, the value the JSON body parser produced, and answer with
  \<open>res.status(n).json(v)\<close> or \<open>res.json(v)\<close>. Both sides are JSON values.

  A string is the list of the bytes of its UTF-8 form (a string with an unpaired
  surrogate has none and is not represented). An object is the list of its own
  properties, with distinct keys, in the order the object enumerates them.

  A number is a double, and the handlers never compute with one: they test it for zero,
  use it as a property key and serialise it. All three are functions of the text
  \<open>String(n)\<close> prints for it (\<open>0\<close>, \<open>-7\<close>, \<open>1.5\<close>, \<open>18446744073709552000\<close> for
  \<open>2 ** 64\<close>, \<open>1e+21\<close>, \<open>Infinity\<close> for a literal that overflows), so \<open>JNum\<close> carries
  that text; \<open>-0\<close> prints as \<open>0\<close>.
\<close>

datatype json =
    JNull
  | JBool bool
  | JNum string
  | JStr string
  | JArr "json list"
  | JObj "(string \<times> json) list"

text \<open>
  A response is the status code (200 unless \<open>res.status\<close> was called) together with the
  value handed to \<open>res.json\<close>.
\<close>

record response =
  status :: nat
  body :: json

text \<open>
  \<open>v.k\<close> for a property name \<open>k\<close> that no prototype defines (\<open>resetKey\<close>, \<open>version\<close>):
  the own property of an object, \<open>undefined\<close> (here \<open>None\<close>) for every other value.
  Reading a property of \<open>null\<close> throws; the callers test for \<open>JNull\<close> first.
\<close>

fun get_prop :: "json \<Rightarrow> string \<Rightarrow> json option" where
  "get_prop (JObj kvs) k = map_of kvs k"
| "get_prop _ k = None"

text \<open>JavaScript truthiness, as \<open>!x\<close> and \<open>if (x)\<close> use it.\<close>

fun truthy :: "json \<Rightarrow> bool" where
  "truthy JNull = False"
| "truthy (JBool b) = b"
| "truthy (JNum n) = (n \<noteq> ''0'' \<and> n \<noteq> ''NaN'')"
| "truthy (JStr s) = (s \<noteq> [])"
| "truthy (JArr _) = True"
| "truthy (JObj _) = True"

fun join :: "string \<Rightarrow> string list \<Rightarrow> string" where
  "join sep [] = []"
| "join sep [x] = x"
| "join sep (x # y # ys) = x @ sep @ join sep (y # ys)"

text \<open>
  \<open>obj[key]\<close> converts the key to a string first. A string is itself; a boolean and a
  number print; an array joins its elements with commas, \<open>null\<close> elements printing as
  nothing; an object prints as \<open>[object Object]\<close> through \<open>Object.prototype.toString\<close>,
  unless it has an own \<open>toString\<close> property: a parsed value is never callable, the
  inherited \<open>valueOf\<close> returns the object itself, and the conversion throws a TypeError
  (\<open>None\<close>).
\<close>

fun to_property_key :: "json \<Rightarrow> string option"
  and elements_to_strings :: "json list \<Rightarrow> string list option" where
  "to_property_key JNull = Some ''null''"
| "to_property_key (JBool b) = Some (if b then ''true'' else ''false'')"
| "to_property_key (JNum n) = Some n"
| "to_property_key (JStr s) = Some s"
| "to_property_key (JArr xs) = map_option (join '','') (elements_to_strings xs)"
| "to_property_key (JObj kvs) =
     (case map_of kvs ''toString'' of
        None \<Rightarrow> Some ''[object Object]''
      | Some _ \<Rightarrow> None)"
| "elements_to_strings [] = Some []"
| "elements_to_strings (x # xs) =
     (case (if x = JNull then Some [] else to_property_key x) of
        None \<Rightarrow> None
      | Some s \<Rightarrow> map_option ((#) s) (elements_to_strings xs))"

section \<open>Configuration and the upstream service\<close>

text \<open>
  The configuration the server reads from \<open>process.env\<close>: a variable is a string or is
  not set.
\<close>

record env =
  REPLICATE_API_KEY :: "string option"
  NODE_ENV :: "string option"

text \<open>An outbound call, as the arguments of \<open>fetch\<close> describe it.\<close>

record outbound =
  url :: string
  verb :: string
  headers :: "(string \<times> string) list"
  payload :: "string option"

text \<open>
  What the upstream does with a call: \<open>fetch\<close> rejects with an error message, or resolves
  to a response with a status code whose \<open>json()\<close> either throws (\<open>Inl\<close>, the message) or
  yields the parsed body. The upstream is a function from calls to replies. Every handler
  runs with the configuration and the upstream in scope (\<open>process.env\<close> and \<open>fetch\<close> are
  globals) and returns its response together with the list of the calls it made.
\<close>

datatype reply = Rejected string | Replied nat "string + json"

type_synonym upstream = "outbound \<Rightarrow> reply"

definition ok :: "nat \<Rightarrow> bool" where
  "ok code = (200 \<le> code \<and> code < 300)"

section \<open>The reset-key table\<close>

text \<open>A descriptor, with the number \<open>creditsGranted\<close> as its text.\<close>

record descriptor =
  resetType :: string
  creditsGranted :: string
  message :: string

definition SECURE_RESET_KEYS :: "(string \<times> descriptor) list" where
  "SECURE_RESET_KEYS =
     [(''ALETO_RESET_DEFAULT_2024'',
         \<lparr>resetType = ''default'', creditsGranted = ''0'',
          message = ''Credits reset to default (2 credits)''\<rparr>),
      (''ALETO_RESET_ZERO_2024'',
         \<lparr>resetType = ''zero'', creditsGranted = ''0'',
          message = ''Credits reset to zero''\<rparr>),
      (''DEV_RESET_CREDITS_2024'',
         \<lparr>resetType = ''default'', creditsGranted = ''0'',
          message = ''Development reset to default (2 credits)''\<rparr>),
      (''ALETO_ADMIN_RESET_2024'',
         \<lparr>resetType = ''default'', creditsGranted = ''0'',
          message = ''Admin reset to default (2 credits)''\<rparr>)]"

text \<open>
  The table is an object literal, so its prototype is \<open>Object.prototype\<close> and
  \<open>SECURE_RESET_KEYS[k]\<close> finds the properties every object inherits as well as the four
  own ones. These are the property names of \<open>Object.prototype\<close>.
\<close>

definition Object_prototype_names :: "string list" where
  "Object_prototype_names =
     [''constructor'', ''__defineGetter__'', ''__defineSetter__'', ''hasOwnProperty'',
      ''__lookupGetter__'', ''__lookupSetter__'', ''isPrototypeOf'',
      ''propertyIsEnumerable'', ''toString'', ''valueOf'', ''__proto__'',
      ''toLocaleString'']"

text \<open>
  What \<open>SECURE_RESET_KEYS[k]\<close> evaluates to: a descriptor of the table; an inherited
  member (a built-in function, or \<open>Object.prototype\<close> itself for \<open>__proto__\<close>), which is
  truthy and has no enumerable own property; or \<open>undefined\<close>.
\<close>

datatype table_value = Own descriptor | Inherited | Undefined

definition table_lookup :: "string \<Rightarrow> table_value" where
  "table_lookup k =
     (case map_of SECURE_RESET_KEYS k of
        Some d \<Rightarrow> Own d
      | None \<Rightarrow> if k \<in> set Object_prototype_names then Inherited else Undefined)"

text \<open>\<open>{success: true, ...v}\<close>: the spread copies the enumerable own properties of \<open>v\<close>.\<close>

fun success_with :: "table_value \<Rightarrow> json" where
  "success_with (Own d) =
     JObj [(''success'', JBool True),
           (''resetType'', JStr (resetType d)),
           (''creditsGranted'', JNum (creditsGranted d)),
           (''message'', JStr (message d))]"
| "success_with _ = JObj [(''success'', JBool True)]"

section \<open>POST /validate-reset-key\<close>

definition failure :: "nat \<Rightarrow> string \<Rightarrow> response" where
  "failure code msg =
     \<lparr>status = code, body = JObj [(''success'', JBool False), (''message'', JStr msg)]\<rparr>"

text \<open>
  The handler of \<open>POST /validate-reset-key\<close>. Destructuring \<open>null\<close> and a key that cannot
  be converted to a string throw inside the \<open>try\<close>; the \<open>catch\<close> answers 500. The handler
  calls nothing.
\<close>

definition validate_reset_key :: "env \<Rightarrow> upstream \<Rightarrow> json \<Rightarrow> response \<times> outbound list" where
  "validate_reset_key e fetch b =
     ((if b = JNull then failure 500 ''Reset key validation failed''
       else
         (case get_prop b ''resetKey'' of
            None \<Rightarrow> failure 400 ''Reset key is required''
          | Some resetKey \<Rightarrow>
              if \<not> truthy resetKey then failure 400 ''Reset key is required''
              else
                (case to_property_key resetKey of
                   None \<Rightarrow> failure 500 ''Reset key validation failed''
                 | Some k \<Rightarrow>
                     (case table_lookup k of
                        Undefined \<Rightarrow> failure 200 ''Invalid reset key''
                      | v \<Rightarrow> \<lparr>status = 200, body = success_with v\<rparr>)))),
      [])"

section \<open>The relay handlers\<close>

subsection \<open>JSON.stringify\<close>

definition hex2 :: "nat \<Rightarrow> string" where
  "hex2 n = [''0123456789abcdef'' ! (n div 16), ''0123456789abcdef'' ! (n mod 16)]"

definition escape_char :: "char \<Rightarrow> string" where
  "escape_char c =
     (if c = CHR 0x22 then [CHR 0x5C, CHR 0x22]
      else if c = CHR 0x5C then [CHR 0x5C, CHR 0x5C]
      else if c = CHR 0x08 then [CHR 0x5C, CHR ''b'']
      else if c = CHR 0x0C then [CHR 0x5C, CHR ''f'']
      else if c = CHR 0x0A then [CHR 0x5C, CHR ''n'']
      else if c = CHR 0x0D then [CHR 0x5C, CHR ''r'']
      else if c = CHR 0x09 then [CHR 0x5C, CHR ''t'']
      else if (of_char c :: nat) < 32 then [CHR 0x5C, CHR ''u'', CHR ''0'', CHR ''0''] @ hex2 (of_char c)
      else [c])"

definition quote :: "string \<Rightarrow> string" where
  "quote s = CHR 0x22 # concat (map escape_char s) @ [CHR 0x22]"

text \<open>
  A finite number is serialised as its text; \<open>Infinity\<close>, \<open>-Infinity\<close> and \<open>NaN\<close> are
  serialised as \<open>null\<close>.
\<close>

fun JSON_stringify :: "json \<Rightarrow> string"
  and stringify_elements :: "json list \<Rightarrow> string list"
  and stringify_members :: "(string \<times> json) list \<Rightarrow> string list" where
  "JSON_stringify JNull = ''null''"
| "JSON_stringify (JBool b) = (if b then ''true'' else ''false'')"
| "JSON_stringify (JNum n) =
     (if n = ''Infinity'' \<or> n = ''-Infinity'' \<or> n = ''NaN'' then ''null'' else n)"
| "JSON_stringify (JStr s) = quote s"
| "JSON_stringify (JArr xs) = ''['' @ join '','' (stringify_elements xs) @ '']''"
| "JSON_stringify (JObj kvs) = ''{'' @ join '','' (stringify_members kvs) @ ''}''"
| "stringify_elements [] = []"
| "stringify_elements (x # xs) = JSON_stringify x # stringify_elements xs"
| "stringify_members [] = []"
| "stringify_members ((k, v) # kvs) =
     (quote k @ '':'' @ JSON_stringify v) # stringify_members kvs"

subsection \<open>The two relay handlers\<close>

definition config_error :: response where
  "config_error =
     \<lparr>status = 500,
      body = JObj [(''error'',
        JStr ''Server configuration error: REPLICATE_API_KEY environment variable not set'')]\<rparr>"

definition proxy_error :: "string \<Rightarrow> response" where
  "proxy_error msg =
     \<lparr>status = 500,
      body = JObj [(''error'', JStr ''Proxy server error''), (''message'', JStr msg)]\<rparr>"

text \<open>
  Reading a property of \<open>null\<close> throws a TypeError with this message (the wording of
  the messages of TypeErrors is the engine's; the handlers only copy it into the body of
  their 500 response).
\<close>

definition null_read :: "string \<Rightarrow> string" where
  "null_read prop =
     ''Cannot read properties of null (reading '' @ [CHR 0x27] @ prop @ [CHR 0x27] @ '')''"

text \<open>
  The first log line of \<open>POST /predictions\<close> evaluates
  \<open>req.body.version?.split(':')[0] || 'unknown'\<close>. The optional chain stops at a missing or
  \<open>null\<close> version only: a version that is not a string has no \<open>split\<close> method and the
  call throws a TypeError (\<open>Inl\<close>, the message), which the handler's \<open>catch\<close> receives.
  The second log line, \<open>req.body.input?.image?.length || 0\<close>, reads properties of values
  that are not \<open>null\<close> and cannot throw.
\<close>

definition logged_model :: "json \<Rightarrow> string + string" where
  "logged_model b =
     (if b = JNull then Inl (null_read ''version'')
      else
        (case get_prop b ''version'' of
           None \<Rightarrow> Inr ''unknown''
         | Some JNull \<Rightarrow> Inr ''unknown''
         | Some (JStr s) \<Rightarrow>
             (let m = takeWhile (\<lambda>c. c \<noteq> CHR '':'') s
              in Inr (if m = [] then ''unknown'' else m))
         | Some _ \<Rightarrow> Inl ''req.body.version?.split is not a function''))"

definition create_call :: "string \<Rightarrow> json \<Rightarrow> outbound" where
  "create_call apiKey b =
     \<lparr>url = ''https://api.replicate.com/v1/predictions'',
      verb = ''POST'',
      headers = [(''Authorization'', ''Token '' @ apiKey),
                 (''Content-Type'', ''application/json'')],
      payload = Some (JSON_stringify b)\<rparr>"

definition status_call :: "string \<Rightarrow> string \<Rightarrow> outbound" where
  "status_call apiKey predictionId =
     \<lparr>url = ''https://api.replicate.com/v1/predictions/'' @ predictionId,
      verb = ''GET'',
      headers = [(''Authorization'', ''Token '' @ apiKey)],
      payload = None\<rparr>"

text \<open>
  What both handlers do with the upstream's reply. A status outside 200..299 is copied
  with the body; otherwise the handler logs a property of the result (\<open>result.id\<close> in
  one handler, \<open>result.status\<close> in the other), which throws when the body is \<open>null\<close>,
  and answers with \<open>res.json(result)\<close>, status 200. Everything thrown, by \<open>fetch\<close>, by
  \<open>response.json()\<close> or by the log line, reaches the same \<open>catch\<close>.
\<close>

definition relay :: "string \<Rightarrow> reply \<Rightarrow> response" where
  "relay prop r =
     (case r of
        Rejected msg \<Rightarrow> proxy_error msg
      | Replied code (Inl msg) \<Rightarrow> proxy_error msg
      | Replied code (Inr result) \<Rightarrow>
          if \<not> ok code then \<lparr>status = code, body = result\<rparr>
          else if result = JNull then proxy_error (null_read prop)
          else \<lparr>status = 200, body = result\<rparr>)"

text \<open>
  \<open>!apiKey\<close> holds for a variable that is not set and for the empty string.
\<close>

definition post_predictions :: "env \<Rightarrow> upstream \<Rightarrow> json \<Rightarrow> response \<times> outbound list" where
  "post_predictions e fetch b =
     (case REPLICATE_API_KEY e of
        None \<Rightarrow> (config_error, [])
      | Some apiKey \<Rightarrow>
          if apiKey = [] then (config_error, [])
          else
            (case logged_model b of
               Inl msg \<Rightarrow> (proxy_error msg, [])
             | Inr _ \<Rightarrow>
                 (let c = create_call apiKey b in (relay ''id'' (fetch c), [c]))))"

definition get_prediction :: "env \<Rightarrow> upstream \<Rightarrow> string \<Rightarrow> response \<times> outbound list" where
  "get_prediction e fetch predictionId =
     (case REPLICATE_API_KEY e of
        None \<Rightarrow> (config_error, [])
      | Some apiKey \<Rightarrow>
          if apiKey = [] then (config_error, [])
          else (let c = status_call apiKey predictionId in (relay ''status'' (fetch c), [c])))"

section \<open>The application\<close>

text \<open>
  A request as the application receives it: the method, the path without the query
  string, and what the JSON body parser makes of the body: the parsed value, an object or
  an array (\<open>{}\<close> when there is nothing to parse), or the message of the error it raises
  (\<open>Inl\<close>) for a body it rejects.
\<close>

record request =
  req_method :: string
  req_path :: string
  req_body :: "string + json"

text \<open>
  What goes back to the client: a status with a JSON body, or a status alone.
\<close>

datatype answer = Json response | NoBody nat

subsection \<open>decodeURIComponent\<close>

text \<open>
  Express percent-decodes what a path parameter matched with \<open>decodeURIComponent\<close>,
  which throws a URIError (\<open>None\<close>) when a \<open>%\<close> is not followed by two hexadecimal
  digits or when the escaped octets are not well-formed UTF-8. First the escapes are
  read: a token is a character as it stands or an escaped octet.
\<close>

definition hex_value :: "char \<Rightarrow> nat option" where
  "hex_value c =
     map_of (zip ''0123456789abcdefABCDEF''
               [0, 1, 2, 3, 4, 5, 6, 7, 8, 9, 10, 11, 12, 13, 14, 15, 10, 11, 12, 13, 14, 15]) c"

fun tokens :: "string \<Rightarrow> (char + nat) list option" where
  "tokens [] = Some []"
| "tokens (c # s) =
     (if c \<noteq> CHR ''%'' then map_option ((#) (Inl c)) (tokens s)
      else
        (case s of
           h # l # rest \<Rightarrow>
             (case (hex_value h, hex_value l) of
                (Some a, Some b) \<Rightarrow> map_option ((#) (Inr (16 * a + b))) (tokens rest)
              | _ \<Rightarrow> None)
         | _ \<Rightarrow> None))"

definition byte_char :: "nat \<Rightarrow> char" where
  "byte_char n =
     Char (odd n) (odd (n div 2)) (odd (n div 4)) (odd (n div 8))
          (odd (n div 16)) (odd (n div 32)) (odd (n div 64)) (odd (n div 128))"

text \<open>
  An octet below 128 is a character. A larger one must start a well-formed UTF-8
  sequence made of escapes only: a lead octet, then one to three continuation octets,
  the first of them in the range that excludes overlong forms, surrogates and code points
  beyond \<open>U+10FFFF\<close>.
\<close>

definition continuation :: "nat \<Rightarrow> bool" where
  "continuation b = (128 \<le> b \<and> b \<le> 191)"

definition first_continuation :: "nat \<Rightarrow> nat \<Rightarrow> bool" where
  "first_continuation lead b =
     (if lead = 224 then 160 \<le> b \<and> b \<le> 191
      else if lead = 237 then 128 \<le> b \<and> b \<le> 159
      else if lead = 240 then 144 \<le> b \<and> b \<le> 191
      else if lead = 244 then 128 \<le> b \<and> b \<le> 143
      else continuation b)"

fun octets :: "(char + nat) list \<Rightarrow> string option" where
  "octets [] = Some []"
| "octets (Inl c # ts) = map_option ((#) c) (octets ts)"
| "octets (Inr b # ts) =
     (if b < 128 then map_option ((#) (byte_char b)) (octets ts)
      else if 194 \<le> b \<and> b \<le> 223 then
        (case ts of
           Inr b1 # rest \<Rightarrow>
             if continuation b1
             then map_option ((@) (map byte_char [b, b1])) (octets rest) else None
         | _ \<Rightarrow> None)
      else if 224 \<le> b \<and> b \<le> 239 then
        (case ts of
           Inr b1 # Inr b2 # rest \<Rightarrow>
             if first_continuation b b1 \<and> continuation b2
             then map_option ((@) (map byte_char [b, b1, b2])) (octets rest) else None
         | _ \<Rightarrow> None)
      else if 240 \<le> b \<and> b \<le> 244 then
        (case ts of
           Inr b1 # Inr b2 # Inr b3 # rest \<Rightarrow>
             if first_continuation b b1 \<and> continuation b2 \<and> continuation b3
             then map_option ((@) (map byte_char [b, b1, b2, b3])) (octets rest) else None
         | _ \<Rightarrow> None)
      else None)"

definition decodeURIComponent :: "string \<Rightarrow> string option" where
  "decodeURIComponent s = (case tokens s of None \<Rightarrow> None | Some ts \<Rightarrow> octets ts)"

subsection \<open>Routes\<close>

datatype route =
    Health
  | CreatePrediction
  | GetPrediction string
  | ValidateResetKey
  | BadParam string
  | NotFound

text \<open>
  Express compares route paths without regard to the case of ASCII letters and accepts one
  trailing slash; a route registered with \<open>app.get\<close> also serves \<open>HEAD\<close>.
\<close>

definition lower_char :: "char \<Rightarrow> char" where
  "lower_char c =
     (case map_of (zip ''ABCDEFGHIJKLMNOPQRSTUVWXYZ'' ''abcdefghijklmnopqrstuvwxyz'') c of
        Some l \<Rightarrow> l
      | None \<Rightarrow> c)"

definition lower :: "string \<Rightarrow> string" where
  "lower s = map lower_char s"

definition handles :: "string \<Rightarrow> string \<Rightarrow> bool" where
  "handles registered m = (m = registered \<or> (registered = ''GET'' \<and> m = ''HEAD''))"

definition path_is :: "string \<Rightarrow> string \<Rightarrow> bool" where
  "path_is pattern p = (lower p = pattern \<or> lower p = pattern @ ''/'')"

text \<open>
  \<open>/predictions/:id\<close>: the prefix, then a segment of one or more characters other than
  \<open>/\<close>, then at most one trailing slash. The result is the segment as it stands in the
  path.
\<close>

definition path_param :: "string \<Rightarrow> string \<Rightarrow> string option" where
  "path_param prefix p =
     (let n = length prefix;
          rest = drop n p;
          seg = (if rest \<noteq> [] \<and> last rest = CHR ''/'' then butlast rest else rest)
      in if lower (take n p) = prefix \<and> seg \<noteq> [] \<and> CHR ''/'' \<notin> set seg
         then Some seg else None)"

text \<open>
  The four routes in the order they are registered. Express matches the path of a route
  and decodes its parameter before it looks at the method: a segment that does not decode
  is an error whatever the method is (\<open>BadParam\<close>), and with an error pending no later
  route or middleware handles the request. The decoded segment is \<open>req.params.id\<close>.
\<close>

definition match_route :: "string \<Rightarrow> string \<Rightarrow> route" where
  "match_route m p =
     (if handles ''GET'' m \<and> (p = [] \<or> p = ''/'') then Health
      else if handles ''POST'' m \<and> path_is ''/predictions'' p then CreatePrediction
      else
        (case path_param ''/predictions/'' p of
           Some seg \<Rightarrow>
             (case decodeURIComponent seg of
                None \<Rightarrow> BadParam seg
              | Some predictionId \<Rightarrow>
                  if handles ''GET'' m then GetPrediction predictionId
                  else if handles ''POST'' m \<and> path_is ''/validate-reset-key'' p
                    then ValidateResetKey
                  else NotFound)
         | None \<Rightarrow>
             if handles ''POST'' m \<and> path_is ''/validate-reset-key'' p then ValidateResetKey
             else NotFound))"

text \<open>
  Whether the method and the path of a request match one of the four routes as they are
  registered.
\<close>

definition matches_a_route :: "string \<Rightarrow> string \<Rightarrow> bool" where
  "matches_a_route m p =
     (handles ''GET'' m \<and> (p = [] \<or> p = ''/'')
      \<or> handles ''POST'' m \<and> path_is ''/predictions'' p
      \<or> handles ''GET'' m \<and> path_param ''/predictions/'' p \<noteq> None
      \<or> handles ''POST'' m \<and> path_is ''/validate-reset-key'' p)"

definition health :: response where
  "health =
     \<lparr>status = 200,
      body = JObj
        [(''status'', JStr ''ok''),
         (''message'', JStr ''Figma AI Rotation Proxy Server''),
         (''endpoints'', JObj
            [(''POST /predictions'', JStr ''Create AI rotation prediction''),
             (''GET /predictions/:id'', JStr ''Get prediction status/result''),
             (''POST /validate-reset-key'',
                JStr ''Validate secure reset keys for Aleto plugin'')]),
         (''usage'', JStr ''API key managed server-side via environment variable'')]\<rparr>"

definition not_found :: response where
  "not_found =
     \<lparr>status = 404,
      body = JObj
        [(''error'', JStr ''Route not found''),
         (''availableRoutes'',
            JArr [JStr ''GET /'', JStr ''POST /predictions'',
                  JStr ''GET /predictions/:id'', JStr ''POST /validate-reset-key''])]\<rparr>"

subsection \<open>The error-handling middleware\<close>

text \<open>
  An error raised by a middleware or while a route is matched reaches the error-handling
  middleware, which answers 500 and shows the error's message in development only.
\<close>

definition error_handler :: "env \<Rightarrow> string \<Rightarrow> response" where
  "error_handler e msg =
     \<lparr>status = 500,
      body = JObj
        [(''error'', JStr ''Internal server error''),
         (''message'',
            JStr (if NODE_ENV e = Some ''development'' then msg
                  else ''Something went wrong''))]\<rparr>"

text \<open>The message Express gives the URIError of a parameter that does not decode.\<close>

definition decode_failure :: "string \<Rightarrow> string" where
  "decode_failure val = ''Failed to decode param '' @ [CHR 0x27] @ val @ [CHR 0x27]"

subsection \<open>The middleware stack\<close>

text \<open>
  \<open>res.json\<close> sends no body in answer to a \<open>HEAD\<close> request; the status stays.
\<close>

definition respond :: "string \<Rightarrow> response \<times> outbound list \<Rightarrow> answer \<times> outbound list" where
  "respond m rc = ((if m = ''HEAD'' then NoBody (status (fst rc)) else Json (fst rc)), snd rc)"

text \<open>
  The stack in the order of registration.
  \<^item> The CORS middleware ends every \<open>OPTIONS\<close> request itself, with status 204 and no
    body; for the other methods it only adds headers.
  \<^item> The JSON body parser sets \<open>req.body\<close>, or raises an error for a body it rejects.
  \<^item> The logging middleware prints a line.
  \<^item> The four routes.
  \<^item> The catch-all, registered with the path \<open>*\<close>: Express decodes the whole path as
    its parameter, and a path that does not decode is an error.
  \<^item> The error-handling middleware, for every error raised on the way.
\<close>

definition app :: "env \<Rightarrow> upstream \<Rightarrow> request \<Rightarrow> answer \<times> outbound list" where
  "app e fetch r =
     (if req_method r = ''OPTIONS'' then (NoBody 204, [])
      else
        respond (req_method r)
          (case req_body r of
             Inl msg \<Rightarrow> (error_handler e msg, [])
           | Inr b \<Rightarrow>
               (case match_route (req_method r) (req_path r) of
                  Health \<Rightarrow> (health, [])
                | CreatePrediction \<Rightarrow> post_predictions e fetch b
                | GetPrediction predictionId \<Rightarrow> get_prediction e fetch predictionId
                | ValidateResetKey \<Rightarrow> validate_reset_key e fetch b
                | BadParam seg \<Rightarrow> (error_handler e (decode_failure seg), [])
                | NotFound \<Rightarrow>
                    (case decodeURIComponent (req_path r) of
                       Some _ \<Rightarrow> (not_found, [])
                     | None \<Rightarrow> (error_handler e (decode_failure (req_path r)), [])))))"

section \<open>Sample configurations, payload and upstreams\<close>

text \<open>The error an upstream reply makes the handler catch, if any.\<close>

fun thrown :: "reply \<Rightarrow> string option" where
  "thrown (Rejected msg) = Some msg"
| "thrown (Replied code (Inl msg)) = Some msg"
| "thrown (Replied code (Inr result)) = None"

definition sample_env :: env where
  "sample_env = \<lparr>REPLICATE_API_KEY = Some ''r8_secret'', NODE_ENV = None\<rparr>"

definition development_env :: env where
  "development_env = \<lparr>REPLICATE_API_KEY = Some ''r8_secret'', NODE_ENV = Some ''development''\<rparr>"

definition sample_payload :: json where
  "sample_payload =
     JObj [(''version'', JStr ''owner/model:abc''),
           (''input'', JObj [(''image'', JStr ''data''), (''scale'', JNum ''1.5'')])]"

text \<open>An upstream that creates the prediction and answers 201 Created.\<close>

definition created_upstream :: upstream where
  "created_upstream c =
     Replied 201 (Inr (JObj [(''id'', JStr ''p1''), (''status'', JStr ''starting'')]))"

text \<open>An upstream that refuses the request with 422 and a JSON error body.\<close>

definition unprocessable_upstream :: upstream where
  "unprocessable_upstream c = Replied 422 (Inr (JObj [(''detail'', JStr ''Invalid version'')]))"

text \<open>Two upstreams that cannot be reached: \<open>fetch\<close> rejects, each with its own error.\<close>

definition unreachable_upstream :: upstream where
  "unreachable_upstream c = Rejected ''connect ECONNREFUSED''"

definition hung_upstream :: upstream where
  "hung_upstream c = Rejected ''socket hang up''"

text \<open>An upstream that answers 200 with the JSON value \<open>null\<close>.\<close>

definition null_upstream :: upstream where
  "null_upstream c = Replied 200 (Inr JNull)"

section \<open>Auxiliary facts\<close>

lemmas decode_defs =
  decodeURIComponent_def hex_value_def byte_char_def continuation_def first_continuation_def

lemmas route_defs =
  match_route_def handles_def path_is_def path_param_def lower_def lower_char_def decode_defs

lemma decode_examples:
  "decodeURIComponent ''a%41%2fb'' = Some ''aA/b''"
  "decodeURIComponent ''%C3%A9'' = Some [CHR 0xC3, CHR 0xA9]"
  "decodeURIComponent ''%F0%9F%98%80'' = Some [CHR 0xF0, CHR 0x9F, CHR 0x98, CHR 0x80]"
  "decodeURIComponent ''%zz'' = None"
  "decodeURIComponent ''%4'' = None"
  "decodeURIComponent ''%C0%80'' = None"
  "decodeURIComponent ''%ED%A0%80'' = None"
  "decodeURIComponent ''%E4%BDx'' = None"
  by (simp_all add: decode_defs)

lemma route_examples:
  "match_route ''GET'' ''/Predictions/AbC/'' = GetPrediction ''AbC''"
  "match_route ''GET'' ''/predictions/a%20b'' = GetPrediction ''a b''"
  "match_route ''GET'' ''/predictions/%zz'' = BadParam ''%zz''"
  "match_route ''POST'' ''/predictions/%zz'' = BadParam ''%zz''"
  "match_route ''HEAD'' ''/'' = Health"
  "match_route ''POST'' ''/predictions/'' = CreatePrediction"
  "match_route ''GET'' ''/predictions/a/b'' = NotFound"
  "match_route ''GET'' ''/predictions/'' = NotFound"
  by (simp_all add: route_defs)

lemma stringify_examples:
  "JSON_stringify
     (JArr [JNum ''12'', JNull, JBool True, JNum ''1.5'', JNum ''18446744073709552000'',
            JNum ''1e+21'', JNum ''Infinity'', JArr []]) =
     ''[12,null,true,1.5,18446744073709552000,1e+21,null,[]]''"
  "JSON_stringify (JObj [(''a'', JStr [CHR ''x'', CHR 0x0A, CHR 0x22, CHR 0x01])]) =
     ''{'' @ [CHR 0x22] @ ''a'' @ [CHR 0x22] @ '':'' @ [CHR 0x22] @ ''x'' @ [CHR 0x5C] @ ''n''
       @ [CHR 0x5C, CHR 0x22, CHR 0x5C] @ ''u0001'' @ [CHR 0x22] @ ''}''"
  by code_simp+

text \<open>
  A handler that made a call is configured with a credential, made the call the source
  builds, and answers with what \<open>relay\<close> makes of the reply.
\<close>

lemma post_calls:
  "snd (post_predictions e fetch b) = [c] \<Longrightarrow>
     \<exists>k. REPLICATE_API_KEY e = Some k \<and> k \<noteq> [] \<and> c = create_call k b \<and>
         fst (post_predictions e fetch b) = relay ''id'' (fetch c)"
  by (auto simp: post_predictions_def Let_def split: option.splits if_splits sum.splits)

lemma get_calls:
  "snd (get_prediction e fetch i) = [c] \<Longrightarrow>
     \<exists>k. REPLICATE_API_KEY e = Some k \<and> k \<noteq> [] \<and> c = status_call k i \<and>
         fst (get_prediction e fetch i) = relay ''status'' (fetch c)"
  by (auto simp: get_prediction_def Let_def split: option.splits if_splits)

lemma relay_error:
  "400 \<le> code \<Longrightarrow> relay prop (Replied code (Inr result)) = \<lparr>status = code, body = result\<rparr>"
  by (simp add: relay_def ok_def)

lemma relay_thrown: "thrown r = Some msg \<Longrightarrow> relay prop r = proxy_error msg"
  by (cases r rule: thrown.cases) (simp_all add: relay_def)

text \<open>
  Two paths of \<open>POST /predictions\<close> on which a log line throws: a \<open>version\<close> that is not
  a string, before any call is made, and a \<open>null\<close> body under a 2xx status, after the
  call. Both end in the \<open>catch\<close>.
\<close>

lemma log_line_throws:
  "post_predictions sample_env created_upstream (JObj [(''version'', JNum ''5'')]) =
     (proxy_error ''req.body.version?.split is not a function'', [])"
  "post_predictions sample_env null_upstream sample_payload =
     (proxy_error (null_read ''id''), [create_call ''r8_secret'' sample_payload])"
  by (simp_all add: post_predictions_def sample_env_def sample_payload_def logged_model_def
        null_upstream_def relay_def ok_def)

text \<open>The descriptors of the table: reset type \<open>default\<close> or \<open>zero\<close>, no credits granted.\<close>

lemma table_descriptors:
  "(k, d) \<in> set SECURE_RESET_KEYS \<Longrightarrow>
     (resetType d = ''default'' \<or> resetType d = ''zero'') \<and> creditsGranted d = ''0''"
  by (auto simp: SECURE_RESET_KEYS_def)

lemma table_keys_not_empty: "map_of SECURE_RESET_KEYS k = Some d \<Longrightarrow> k \<noteq> []"
  by (auto simp: SECURE_RESET_KEYS_def split: if_splits)

text \<open>A key of the table is answered with its descriptor merged into \<open>success: true\<close>.\<close>

lemma known_key_accepted:
  assumes "get_prop b ''resetKey'' = Some (JStr k)" and "map_of SECURE_RESET_KEYS k = Some d"
  shows "validate_reset_key e fetch b =
           (\<lparr>status = 200,
             body = JObj [(''success'', JBool True), (''resetType'', JStr (resetType d)),
                          (''creditsGranted'', JNum (creditsGranted d)),
                          (''message'', JStr (message d))]\<rparr>,
            [])"
proof -
  have "b \<noteq> JNull" using assms(1) by auto
  moreover have "k \<noteq> []" using assms(2) by (rule table_keys_not_empty)
  ultimately show ?thesis
    using assms by (simp add: validate_reset_key_def table_lookup_def)
qed

text \<open>
  A non-empty string that is neither a key of the table nor a property name of
  \<open>Object.prototype\<close> is answered with \<open>Invalid reset key\<close>.
\<close>

lemma unknown_key_rejected:
  assumes "get_prop b ''resetKey'' = Some (JStr k)" and "k \<noteq> []"
    and "map_of SECURE_RESET_KEYS k = None" and "k \<notin> set Object_prototype_names"
  shows "validate_reset_key e fetch b =
           (\<lparr>status = 200,
             body = JObj [(''success'', JBool False),
                          (''message'', JStr ''Invalid reset key'')]\<rparr>,
            [])"
proof -
  have "b \<noteq> JNull" using assms(1) by auto
  then show ?thesis
    using assms by (simp add: validate_reset_key_def table_lookup_def failure_def)
qed

subsection \<open>Decoding and the routes\<close>

text \<open>
  When a path decodes, so does the segment that \<open>/predictions/:id\<close> matches in it: the
  prefix has no escape, and an escape sequence does not reach across the trailing slash.
\<close>

lemma hex_value_slash: "hex_value (CHR ''/'') = None"
  by (simp add: hex_value_def)

lemma tokens_slash_suffix:
  "tokens (s @ ''/'') = Some ts' \<Longrightarrow> \<exists>ts. tokens s = Some ts \<and> ts' = ts @ [Inl (CHR ''/'')]"
proof (induction s arbitrary: ts' rule: length_induct)
  case (1 s)
  note IH = 1(1)[rule_format]
  show ?case
  proof (cases s)
    case Nil
    with 1(2) show ?thesis by simp
  next
    case (Cons c s1)
    show ?thesis
    proof (cases "c = CHR ''%''")
      case False
      with 1(2) Cons obtain t1 where t1: "tokens (s1 @ ''/'') = Some t1" "ts' = Inl c # t1"
        by auto
      from IH[of s1 t1] Cons t1(1) obtain t where "tokens s1 = Some t" "t1 = t @ [Inl (CHR ''/'')]"
        by auto
      with False Cons t1(2) show ?thesis by simp
    next
      case True
      show ?thesis
      proof (cases s1)
        case Nil
        with True Cons 1(2) show ?thesis by simp
      next
        case c2: (Cons h s2)
        show ?thesis
        proof (cases s2)
          case Nil
          with True Cons c2 1(2) show ?thesis
            by (simp add: hex_value_slash split: option.splits)
        next
          case c3: (Cons l rest)
          from 1(2) True Cons c2 c3 obtain a b t1 where
            ab: "hex_value h = Some a" "hex_value l = Some b"
            and t1: "tokens (rest @ ''/'') = Some t1" "ts' = Inr (16 * a + b) # t1"
            by (auto split: option.splits)
          from IH[of rest t1] Cons c2 c3 t1(1) obtain t where
            "tokens rest = Some t" "t1 = t @ [Inl (CHR ''/'')]"
            by auto
          with True Cons c2 c3 ab t1(2) show ?thesis by simp
        qed
      qed
    qed
  qed
qed

lemma one_octet_follows:
  "(case ts @ [Inl c] of Inr b1 # rest \<Rightarrow> F b1 rest | _ \<Rightarrow> None) = Some r \<Longrightarrow>
     \<exists>b1 ts1. ts = Inr b1 # ts1 \<and> F b1 (ts1 @ [Inl c]) = Some r"
  by (cases ts) (simp_all split: sum.splits)

lemma two_octets_follow:
  assumes "(case ts @ [Inl c] of Inr b1 # Inr b2 # rest \<Rightarrow> F b1 b2 rest | _ \<Rightarrow> None) = Some r"
  shows "\<exists>b1 b2 ts1. ts = Inr b1 # Inr b2 # ts1 \<and> F b1 b2 (ts1 @ [Inl c]) = Some r"
proof (cases ts)
  case Nil
  with assms show ?thesis by simp
next
  case c1: (Cons x xs)
  show ?thesis
  proof (cases xs)
    case Nil
    with c1 assms show ?thesis by (cases x) simp_all
  next
    case (Cons y ys)
    with c1 assms show ?thesis by (cases x; cases y) simp_all
  qed
qed

lemma three_octets_follow:
  assumes "(case ts @ [Inl c] of Inr b1 # Inr b2 # Inr b3 # rest \<Rightarrow> F b1 b2 b3 rest | _ \<Rightarrow> None) = Some r"
  shows "\<exists>b1 b2 b3 ts1. ts = Inr b1 # Inr b2 # Inr b3 # ts1 \<and> F b1 b2 b3 (ts1 @ [Inl c]) = Some r"
proof (cases ts)
  case Nil
  with assms show ?thesis by simp
next
  case c1: (Cons x xs)
  show ?thesis
  proof (cases xs)
    case Nil
    with c1 assms show ?thesis by (cases x) simp_all
  next
    case c2: (Cons y ys)
    show ?thesis
    proof (cases ys)
      case Nil
      with c1 c2 assms show ?thesis by (cases x; cases y) simp_all
    next
      case (Cons z zs)
      with c1 c2 assms show ?thesis by (cases x; cases y; cases z) simp_all
    qed
  qed
qed

lemma octets_slash_suffix:
  "octets (ts @ [Inl c]) = Some r \<Longrightarrow> \<exists>r'. octets ts = Some r'"
proof (induction ts arbitrary: r rule: length_induct)
  case (1 ts)
  note IH = 1(1)[rule_format]
  show ?case
  proof (cases ts)
    case Nil
    then show ?thesis by simp
  next
    case (Cons t ts1)
    show ?thesis
    proof (cases t)
      case (Inl c')
      with 1(2) Cons obtain r1 where "octets (ts1 @ [Inl c]) = Some r1" by auto
      from IH[of ts1 r1] this Cons obtain r' where "octets ts1 = Some r'" by auto
      with Inl Cons show ?thesis by simp
    next
      case (Inr b)
      consider (ascii) "b < 128"
        | (two) "\<not> b < 128" "194 \<le> b \<and> b \<le> 223"
        | (three) "\<not> b < 128" "\<not> (194 \<le> b \<and> b \<le> 223)" "224 \<le> b \<and> b \<le> 239"
        | (four) "\<not> b < 128" "\<not> (194 \<le> b \<and> b \<le> 223)" "\<not> (224 \<le> b \<and> b \<le> 239)"
            "240 \<le> b \<and> b \<le> 244"
        | (bad) "\<not> b < 128" "\<not> (194 \<le> b \<and> b \<le> 223)" "\<not> (224 \<le> b \<and> b \<le> 239)"
            "\<not> (240 \<le> b \<and> b \<le> 244)"
        by blast
      then show ?thesis
      proof cases
        case ascii
        with 1(2) Cons Inr obtain r1 where "octets (ts1 @ [Inl c]) = Some r1" by auto
        from IH[of ts1 r1] this Cons obtain r' where "octets ts1 = Some r'" by auto
        with ascii Inr Cons show ?thesis by simp
      next
        case two
        with 1(2) Cons Inr have
          "(case ts1 @ [Inl c] of
              Inr b1 # rest \<Rightarrow>
                if continuation b1
                then map_option ((@) (map byte_char [b, b1])) (octets rest) else None
            | _ \<Rightarrow> None) = Some r"
          by simp
        from one_octet_follows[OF this] obtain b1 ts2 where
          ts1: "ts1 = Inr b1 # ts2"
          and r: "(if continuation b1
                   then map_option ((@) (map byte_char [b, b1])) (octets (ts2 @ [Inl c]))
                   else None) = Some r"
          by blast
        from r obtain r1 where "continuation b1" "octets (ts2 @ [Inl c]) = Some r1"
          by (auto split: if_splits)
        moreover from IH[of ts2 r1] this(2) Cons ts1 obtain r' where "octets ts2 = Some r'"
          by auto
        ultimately show ?thesis using two Inr Cons ts1 by simp
      next
        case three
        with 1(2) Cons Inr have
          "(case ts1 @ [Inl c] of
              Inr b1 # Inr b2 # rest \<Rightarrow>
                if first_continuation b b1 \<and> continuation b2
                then map_option ((@) (map byte_char [b, b1, b2])) (octets rest) else None
            | _ \<Rightarrow> None) = Some r"
          by simp
        from two_octets_follow[OF this] obtain b1 b2 ts2 where
          ts1: "ts1 = Inr b1 # Inr b2 # ts2"
          and r: "(if first_continuation b b1 \<and> continuation b2
                   then map_option ((@) (map byte_char [b, b1, b2])) (octets (ts2 @ [Inl c]))
                   else None) = Some r"
          by blast
        from r obtain r1 where "first_continuation b b1 \<and> continuation b2"
          "octets (ts2 @ [Inl c]) = Some r1"
          by (auto split: if_splits)
        moreover from IH[of ts2 r1] this(2) Cons ts1 obtain r' where "octets ts2 = Some r'"
          by auto
        ultimately show ?thesis using three Inr Cons ts1 by simp
      next
        case four
        with 1(2) Cons Inr have
          "(case ts1 @ [Inl c] of
              Inr b1 # Inr b2 # Inr b3 # rest \<Rightarrow>
                if first_continuation b b1 \<and> continuation b2 \<and> continuation b3
                then map_option ((@) (map byte_char [b, b1, b2, b3])) (octets rest) else None
            | _ \<Rightarrow> None) = Some r"
          by simp
        from three_octets_follow[OF this] obtain b1 b2 b3 ts2 where
          ts1: "ts1 = Inr b1 # Inr b2 # Inr b3 # ts2"
          and r: "(if first_continuation b b1 \<and> continuation b2 \<and> continuation b3
                   then map_option ((@) (map byte_char [b, b1, b2, b3])) (octets (ts2 @ [Inl c]))
                   else None) = Some r"
          by blast
        from r obtain r1 where "first_continuation b b1 \<and> continuation b2 \<and> continuation b3"
          "octets (ts2 @ [Inl c]) = Some r1"
          by (auto split: if_splits)
        moreover from IH[of ts2 r1] this(2) Cons ts1 obtain r' where "octets ts2 = Some r'"
          by auto
        ultimately show ?thesis using four Inr Cons ts1 by simp
      next
        case bad
        with 1(2) Cons Inr show ?thesis by simp
      qed
    qed
  qed
qed

lemma lower_char_percent: "lower_char c = CHR ''%'' \<Longrightarrow> c = CHR ''%''"
  by (auto simp: lower_char_def split: if_splits)

lemma tokens_plain_prefix:
  "CHR ''%'' \<notin> set a \<Longrightarrow> tokens (a @ s) = map_option ((@) (map Inl a)) (tokens s)"
proof (induction a)
  case Nil
  show ?case by (cases "tokens s") simp_all
next
  case (Cons c a)
  then show ?case by (cases "tokens s") auto
qed

lemma octets_plain_prefix: "octets (map Inl a @ ts) = map_option ((@) a) (octets ts)"
proof (induction a)
  case Nil
  show ?case by (cases "octets ts") simp_all
next
  case (Cons c a)
  then show ?case by (cases "octets ts") simp_all
qed

lemma decode_plain_prefix:
  "CHR ''%'' \<notin> set a \<Longrightarrow>
     decodeURIComponent (a @ s) = map_option ((@) a) (decodeURIComponent s)"
  by (cases "tokens s")
     (simp_all add: decodeURIComponent_def tokens_plain_prefix octets_plain_prefix)

lemma decode_slash_suffix:
  assumes "decodeURIComponent (s @ ''/'') = Some d"
  shows "\<exists>d'. decodeURIComponent s = Some d'"
proof -
  from assms obtain ts' where ts': "tokens (s @ ''/'') = Some ts'" "octets ts' = Some d"
    by (auto simp: decodeURIComponent_def split: option.splits)
  from tokens_slash_suffix[OF ts'(1)] obtain ts where
    ts: "tokens s = Some ts" "ts' = ts @ [Inl (CHR ''/'')]"
    by blast
  from octets_slash_suffix[of ts "CHR ''/''" d] ts'(2) ts(2) obtain d' where "octets ts = Some d'"
    by auto
  with ts(1) show ?thesis by (simp add: decodeURIComponent_def)
qed

lemma param_decodes:
  assumes "path_param prefix p = Some seg" and "CHR ''%'' \<notin> set prefix"
    and "decodeURIComponent p = Some d"
  shows "\<exists>i. decodeURIComponent seg = Some i"
proof -
  define n where "n = length prefix"
  define rest where "rest = drop n p"
  from assms(1) have low: "lower (take n p) = prefix"
    and seg: "seg = (if rest \<noteq> [] \<and> last rest = CHR ''/'' then butlast rest else rest)"
    by (auto simp: path_param_def Let_def n_def rest_def split: if_splits)
  have "CHR ''%'' \<notin> set (take n p)"
  proof
    assume "CHR ''%'' \<in> set (take n p)"
    then have "lower_char (CHR ''%'') \<in> set (lower (take n p))"
      by (simp add: lower_def)
    then show False using low assms(2) by (simp add: lower_char_def)
  qed
  then have "decodeURIComponent (take n p @ rest) =
      map_option ((@) (take n p)) (decodeURIComponent rest)"
    by (rule decode_plain_prefix)
  with assms(3) obtain d1 where d1: "decodeURIComponent rest = Some d1"
    by (cases "decodeURIComponent rest") (simp_all add: rest_def)
  show ?thesis
  proof (cases "rest \<noteq> [] \<and> last rest = CHR ''/''")
    case False
    with seg d1 show ?thesis by auto
  next
    case True
    then have "rest \<noteq> []"
      by simp
    then have "butlast rest @ [last rest] = rest"
      by (rule append_butlast_last_id)
    with True seg have "rest = seg @ ''/''"
      by simp
    with d1 show ?thesis using decode_slash_suffix[of seg d1] by simp
  qed
qed

lemma unmatched_is_not_found:
  assumes "\<not> matches_a_route m p" and "decodeURIComponent p = Some d"
  shows "match_route m p = NotFound"
proof (cases "path_param ''/predictions/'' p")
  case None
  with assms(1) show ?thesis by (simp add: matches_a_route_def match_route_def)
next
  case (Some seg)
  have "CHR ''%'' \<notin> set ''/predictions/''" by simp
  from param_decodes[OF Some this assms(2)] obtain i where "decodeURIComponent seg = Some i"
    by blast
  with Some assms(1) show ?thesis by (simp add: matches_a_route_def match_route_def)
qed

lemma reset_key_route:
  assumes "path_is ''/validate-reset-key'' p"
  shows "match_route ''POST'' p = ValidateResetKey"
proof -
  have "lower (take k p) = take k (lower p)" for k
    by (simp add: lower_def take_map)
  then have "lower (take (length ''/predictions/'') p) =
      take (length ''/predictions/'') (lower p)" .
  with assms have "lower (take (length ''/predictions/'') p) = ''/validate-res''"
    by (auto simp: path_is_def)
  then have no_param: "path_param ''/predictions/'' p = None"
    by (simp add: path_param_def Let_def)
  have not_get: "\<not> handles ''GET'' ''POST''"
    by (simp add: handles_def)
  from assms have not_create: "\<not> path_is ''/predictions'' p"
    by (auto simp: path_is_def)
  have post: "handles ''POST'' ''POST''"
    by (simp add: handles_def)
  show ?thesis
    unfolding match_route_def
    by (simp only: not_get not_create post assms no_param simp_thms if_False if_True
          option.case)
qed

section \<open>The reset-key endpoint\<close>

text \<open>
  C1. The claim: a non-empty string \<open>resetKey\<close> that is not a key of the table is answered
  with status 200 and \<open>{success: false, message: "Invalid reset key"}\<close>. The handler looks
  the key up with \<open>SECURE_RESET_KEYS[resetKey]\<close>, which also finds what the table object
  inherits: \<open>constructor\<close> is not a key of the table, and the request is answered with
  status 200 and \<open>{success: true}\<close>.
\<close>

theorem inherited_name_accepted:
  "map_of SECURE_RESET_KEYS ''constructor'' = None
   \<and> validate_reset_key e fetch (JObj [(''resetKey'', JStr ''constructor'')]) =
       (\<lparr>status = 200, body = JObj [(''success'', JBool True)]\<rparr>, [])"
  by (simp add: validate_reset_key_def table_lookup_def SECURE_RESET_KEYS_def
        Object_prototype_names_def)

text \<open>
  C6. A request to \<open>POST /validate-reset-key\<close> whose \<open>resetKey\<close> is the string
  \<open>ALETO_RESET_DEFAULT_2024\<close> is answered with status 200 and a body with
  \<open>success: true\<close>, \<open>resetType: "default"\<close> and the message
  \<open>Credits reset to default (2 credits)\<close>.
\<close>

theorem default_key_accepted:
  "validate_reset_key e fetch (JObj [(''resetKey'', JStr ''ALETO_RESET_DEFAULT_2024'')]) =
     (\<lparr>status = 200,
       body = JObj [(''success'', JBool True),
                    (''resetType'', JStr ''default''),
                    (''creditsGranted'', JNum ''0''),
                    (''message'', JStr ''Credits reset to default (2 credits)'')]\<rparr>,
      [])"
  by (simp add: validate_reset_key_def table_lookup_def SECURE_RESET_KEYS_def)

text \<open>
  C7. A request to \<open>POST /validate-reset-key\<close> whose body has no \<open>resetKey\<close> field, or has
  the empty string there, is answered with status 400 and a body whose \<open>success\<close> field is
  \<open>false\<close>.
\<close>

theorem missing_reset_key_gives_400:
  assumes "b \<noteq> JNull"
    and "get_prop b ''resetKey'' = None \<or> get_prop b ''resetKey'' = Some (JStr [])"
  shows "validate_reset_key e fetch b =
           (\<lparr>status = 400,
             body = JObj [(''success'', JBool False),
                          (''message'', JStr ''Reset key is required'')]\<rparr>,
            [])"
  using assms by (auto simp: validate_reset_key_def failure_def)

theorem missing_reset_key_gives_400_witness:
  "JObj [] \<noteq> JNull \<and> get_prop (JObj []) ''resetKey'' = None
   \<and> validate_reset_key sample_env created_upstream (JObj []) =
       (\<lparr>status = 400,
         body = JObj [(''success'', JBool False), (''message'', JStr ''Reset key is required'')]\<rparr>,
        [])
   \<and> JObj [(''resetKey'', JStr [])] \<noteq> JNull
   \<and> get_prop (JObj [(''resetKey'', JStr [])]) ''resetKey'' = Some (JStr [])
   \<and> validate_reset_key sample_env created_upstream (JObj [(''resetKey'', JStr [])]) =
       (\<lparr>status = 400,
         body = JObj [(''success'', JBool False), (''message'', JStr ''Reset key is required'')]\<rparr>,
        [])"
  using missing_reset_key_gives_400 [of "JObj []" sample_env created_upstream]
    missing_reset_key_gives_400 [of "JObj [(''resetKey'', JStr [])]" sample_env created_upstream]
  by simp

text \<open>
  C9, as the code has it. For a request routed to \<open>POST /validate-reset-key\<close> whose body
  the body parser accepted, the answer is a function of the parsed body alone: two such
  requests with equal bodies get equal answers, whatever the configuration and the
  upstream are, and no outbound call is made. The server keeps no state between requests:
  no handler writes a variable that outlives it.
\<close>

theorem reset_key_response_from_body_alone:
  assumes "req_method r1 = ''POST''" and "path_is ''/validate-reset-key'' (req_path r1)"
    and "req_method r2 = ''POST''" and "path_is ''/validate-reset-key'' (req_path r2)"
    and "req_body r1 = Inr b" and "req_body r2 = Inr b"
  shows "app e1 fetch1 r1 = app e2 fetch2 r2 \<and> snd (app e1 fetch1 r1) = []"
proof -
  have "match_route (req_method r1) (req_path r1) = ValidateResetKey"
    and "match_route (req_method r2) (req_path r2) = ValidateResetKey"
    using assms(1-4) by (simp_all add: reset_key_route)
  moreover have "validate_reset_key e1 fetch1 b = validate_reset_key e2 fetch2 b"
    by (simp add: validate_reset_key_def)
  moreover have "snd (validate_reset_key e1 fetch1 b) = []"
    by (simp add: validate_reset_key_def)
  ultimately show ?thesis
    using assms by (simp add: app_def respond_def)
qed

theorem reset_key_response_from_body_alone_witness:
  "path_is ''/validate-reset-key'' ''/validate-reset-key''
   \<and> path_is ''/validate-reset-key'' ''/Validate-Reset-Key/''
   \<and> app development_env unreachable_upstream
        \<lparr>req_method = ''POST'', req_path = ''/validate-reset-key'',
         req_body = Inr (JObj [(''resetKey'', JStr ''ALETO_RESET_ZERO_2024'')])\<rparr> =
     app \<lparr>REPLICATE_API_KEY = None, NODE_ENV = None\<rparr> created_upstream
        \<lparr>req_method = ''POST'', req_path = ''/Validate-Reset-Key/'',
         req_body = Inr (JObj [(''resetKey'', JStr ''ALETO_RESET_ZERO_2024'')])\<rparr>
   \<and> snd (app development_env unreachable_upstream
        \<lparr>req_method = ''POST'', req_path = ''/validate-reset-key'',
         req_body = Inr (JObj [(''resetKey'', JStr ''ALETO_RESET_ZERO_2024'')])\<rparr>) = []"
  using reset_key_response_from_body_alone
    [of "\<lparr>req_method = ''POST'', req_path = ''/validate-reset-key'',
          req_body = Inr (JObj [(''resetKey'', JStr ''ALETO_RESET_ZERO_2024'')])\<rparr>"
        "\<lparr>req_method = ''POST'', req_path = ''/Validate-Reset-Key/'',
          req_body = Inr (JObj [(''resetKey'', JStr ''ALETO_RESET_ZERO_2024'')])\<rparr>"
        "JObj [(''resetKey'', JStr ''ALETO_RESET_ZERO_2024'')]"
        development_env unreachable_upstream
        "\<lparr>REPLICATE_API_KEY = None, NODE_ENV = None\<rparr>" created_upstream]
  by (auto simp: path_is_def lower_def lower_char_def)

text \<open>
  A body the parser rejects never reaches the handler: the error-handling middleware
  answers, and its body shows the parser's message when \<open>NODE_ENV\<close> is \<open>development\<close>
  and a fixed text otherwise. The same request gets two different answers under two
  configurations.
\<close>

theorem rejected_body_answer_depends_on_env:
  "path_is ''/validate-reset-key'' ''/validate-reset-key''
   \<and> app development_env created_upstream
        \<lparr>req_method = ''POST'', req_path = ''/validate-reset-key'',
         req_body = Inl ''Unexpected end of JSON input''\<rparr> =
       (Json \<lparr>status = 500,
              body = JObj [(''error'', JStr ''Internal server error''),
                           (''message'', JStr ''Unexpected end of JSON input'')]\<rparr>, [])
   \<and> app sample_env created_upstream
        \<lparr>req_method = ''POST'', req_path = ''/validate-reset-key'',
         req_body = Inl ''Unexpected end of JSON input''\<rparr> =
       (Json \<lparr>status = 500,
              body = JObj [(''error'', JStr ''Internal server error''),
                           (''message'', JStr ''Something went wrong'')]\<rparr>, [])
   \<and> app development_env created_upstream
        \<lparr>req_method = ''POST'', req_path = ''/validate-reset-key'',
         req_body = Inl ''Unexpected end of JSON input''\<rparr> \<noteq>
     app sample_env created_upstream
        \<lparr>req_method = ''POST'', req_path = ''/validate-reset-key'',
         req_body = Inl ''Unexpected end of JSON input''\<rparr>"
  by (simp add: app_def respond_def error_handler_def development_env_def sample_env_def
        route_defs)

text \<open>
  C10. The claim: every \<open>success: true\<close> response carries \<open>creditsGranted\<close> 0 and a
  \<open>resetType\<close> of \<open>default\<close> or \<open>zero\<close>, as every descriptor of the table does
  (\<open>table_descriptors\<close>). The key \<open>toString\<close> is found on the prototype of the table
  object: its response has \<open>success: true\<close> and neither of the two fields.
\<close>

theorem success_without_descriptor:
  "get_prop (body (fst (validate_reset_key e fetch (JObj [(''resetKey'', JStr ''toString'')]))))
     ''success'' = Some (JBool True)
   \<and> get_prop (body (fst (validate_reset_key e fetch (JObj [(''resetKey'', JStr ''toString'')]))))
       ''creditsGranted'' = None
   \<and> get_prop (body (fst (validate_reset_key e fetch (JObj [(''resetKey'', JStr ''toString'')]))))
       ''resetType'' = None"
  by (simp add: validate_reset_key_def table_lookup_def SECURE_RESET_KEYS_def
        Object_prototype_names_def)

section \<open>The relay endpoints\<close>

text \<open>
  C2. When \<open>REPLICATE_API_KEY\<close> is not configured (not set, or empty), \<open>POST /predictions\<close>
  and \<open>GET /predictions/:id\<close> answer every request with status 500 and a
  configuration-error body, and make no outbound call.
\<close>

theorem missing_credential_gives_500:
  assumes "REPLICATE_API_KEY e = None \<or> REPLICATE_API_KEY e = Some []"
  shows "post_predictions e fetch b =
           (\<lparr>status = 500, body = JObj [(''error'',
               JStr ''Server configuration error: REPLICATE_API_KEY environment variable not set'')]\<rparr>,
            [])
       \<and> get_prediction e fetch i =
           (\<lparr>status = 500, body = JObj [(''error'',
               JStr ''Server configuration error: REPLICATE_API_KEY environment variable not set'')]\<rparr>,
            [])"
  using assms by (auto simp: post_predictions_def get_prediction_def config_error_def)

theorem missing_credential_gives_500_witness:
  "(REPLICATE_API_KEY \<lparr>REPLICATE_API_KEY = None, NODE_ENV = None\<rparr> = None
      \<or> REPLICATE_API_KEY \<lparr>REPLICATE_API_KEY = None, NODE_ENV = None\<rparr> = Some [])
   \<and> status (fst (post_predictions \<lparr>REPLICATE_API_KEY = None, NODE_ENV = None\<rparr>
        created_upstream sample_payload)) = 500
   \<and> snd (post_predictions \<lparr>REPLICATE_API_KEY = None, NODE_ENV = None\<rparr>
        created_upstream sample_payload) = []
   \<and> status (fst (get_prediction \<lparr>REPLICATE_API_KEY = None, NODE_ENV = None\<rparr>
        created_upstream ''p1'')) = 500
   \<and> snd (get_prediction \<lparr>REPLICATE_API_KEY = None, NODE_ENV = None\<rparr>
        created_upstream ''p1'') = []"
  using missing_credential_gives_500
    [of "\<lparr>REPLICATE_API_KEY = None, NODE_ENV = None\<rparr>" created_upstream sample_payload "''p1''"]
  by simp

text \<open>
  C3, as the code has it. For a payload \<open>P\<close> whose \<open>version\<close> field is absent, \<open>null\<close> or
  a string, with the credential configured, \<open>POST /predictions\<close> makes exactly one outbound
  call, whatever the upstream replies: a POST to the fixed URL whose body is \<open>P\<close>
  serialised and whose Authorization header is \<open>Token\<close> followed by the credential. When
  the upstream answers with a status and a JSON body (not \<open>null\<close> under a 2xx status), the
  response carries that body, with the upstream's status when it is outside 200..299 and
  with 200 otherwise.
\<close>

theorem create_prediction_relayed:
  assumes "REPLICATE_API_KEY e = Some apiKey" and "apiKey \<noteq> []"
    and "P \<noteq> JNull"
    and "get_prop P ''version'' = None \<or> get_prop P ''version'' = Some JNull
         \<or> (\<exists>s. get_prop P ''version'' = Some (JStr s))"
    and "c = \<lparr>url = ''https://api.replicate.com/v1/predictions'', verb = ''POST'',
              headers = [(''Authorization'', ''Token '' @ apiKey),
                         (''Content-Type'', ''application/json'')],
              payload = Some (JSON_stringify P)\<rparr>"
  shows "snd (post_predictions e fetch P) = [c]
       \<and> (fetch c = Replied code (Inr result) \<and> (ok code \<longrightarrow> result \<noteq> JNull)
            \<longrightarrow> fst (post_predictions e fetch P) =
                  \<lparr>status = (if ok code then 200 else code), body = result\<rparr>)"
proof -
  from assms(3,4) obtain m where "logged_model P = Inr m"
    by (auto simp: logged_model_def Let_def)
  moreover have "create_call apiKey P = c"
    by (simp add: create_call_def assms(5))
  ultimately show ?thesis
    using assms(1,2) by (auto simp: post_predictions_def relay_def)
qed

theorem create_prediction_relayed_witness:
  "REPLICATE_API_KEY sample_env = Some ''r8_secret'' \<and> ''r8_secret'' \<noteq> []
   \<and> sample_payload \<noteq> JNull
   \<and> get_prop sample_payload ''version'' = Some (JStr ''owner/model:abc'')
   \<and> snd (post_predictions sample_env created_upstream sample_payload) =
       [\<lparr>url = ''https://api.replicate.com/v1/predictions'', verb = ''POST'',
         headers = [(''Authorization'', ''Token r8_secret''),
                    (''Content-Type'', ''application/json'')],
         payload = Some (JSON_stringify sample_payload)\<rparr>]
   \<and> created_upstream
        \<lparr>url = ''https://api.replicate.com/v1/predictions'', verb = ''POST'',
         headers = [(''Authorization'', ''Token r8_secret''),
                    (''Content-Type'', ''application/json'')],
         payload = Some (JSON_stringify sample_payload)\<rparr> =
       Replied 201 (Inr (JObj [(''id'', JStr ''p1''), (''status'', JStr ''starting'')]))
   \<and> ok 201 \<and> JObj [(''id'', JStr ''p1''), (''status'', JStr ''starting'')] \<noteq> JNull
   \<and> fst (post_predictions sample_env created_upstream sample_payload) =
       \<lparr>status = 200, body = JObj [(''id'', JStr ''p1''), (''status'', JStr ''starting'')]\<rparr>"
  using create_prediction_relayed
    [of sample_env "''r8_secret''" sample_payload
        "\<lparr>url = ''https://api.replicate.com/v1/predictions'', verb = ''POST'',
          headers = [(''Authorization'', ''Token r8_secret''),
                     (''Content-Type'', ''application/json'')],
          payload = Some (JSON_stringify sample_payload)\<rparr>"
        created_upstream 201
        "JObj [(''id'', JStr ''p1''), (''status'', JStr ''starting'')]"]
  by (simp add: sample_env_def created_upstream_def ok_def)
     (simp add: sample_payload_def)

text \<open>
  The status of a successful upstream reply is not copied: the upstream answers the call
  with 201 Created, and the handler answers with the same body and status 200.
\<close>

theorem created_status_not_mirrored:
  "created_upstream (create_call ''r8_secret'' sample_payload) =
     Replied 201 (Inr (JObj [(''id'', JStr ''p1''), (''status'', JStr ''starting'')]))
   \<and> post_predictions sample_env created_upstream sample_payload =
       (\<lparr>status = 200, body = JObj [(''id'', JStr ''p1''), (''status'', JStr ''starting'')]\<rparr>,
        [create_call ''r8_secret'' sample_payload])
   \<and> status (fst (post_predictions sample_env created_upstream sample_payload)) \<noteq> 201"
  by (simp add: post_predictions_def sample_env_def sample_payload_def logged_model_def
        created_upstream_def relay_def ok_def)

text \<open>
  C4. When the upstream answers the handler's call with a 4xx or 5xx status and a JSON
  body, \<open>POST /predictions\<close> and \<open>GET /predictions/:id\<close> respond with exactly that status
  and exactly that body.
\<close>

theorem upstream_errors_pass_through:
  assumes "400 \<le> code" and "code < 600"
  shows "(snd (post_predictions e fetch b) = [c] \<and> fetch c = Replied code (Inr result)
            \<longrightarrow> fst (post_predictions e fetch b) = \<lparr>status = code, body = result\<rparr>)
       \<and> (snd (get_prediction e fetch i) = [c'] \<and> fetch c' = Replied code (Inr result')
            \<longrightarrow> fst (get_prediction e fetch i) = \<lparr>status = code, body = result'\<rparr>)"
  using assms by (auto dest!: post_calls get_calls simp: relay_error)

theorem upstream_errors_pass_through_witness:
  "(400::nat) \<le> 422 \<and> (422::nat) < 600
   \<and> snd (post_predictions sample_env unprocessable_upstream sample_payload) =
        [create_call ''r8_secret'' sample_payload]
   \<and> unprocessable_upstream (create_call ''r8_secret'' sample_payload) =
        Replied 422 (Inr (JObj [(''detail'', JStr ''Invalid version'')]))
   \<and> fst (post_predictions sample_env unprocessable_upstream sample_payload) =
        \<lparr>status = 422, body = JObj [(''detail'', JStr ''Invalid version'')]\<rparr>
   \<and> snd (get_prediction sample_env unprocessable_upstream ''p1'') =
        [status_call ''r8_secret'' ''p1'']
   \<and> unprocessable_upstream (status_call ''r8_secret'' ''p1'') =
        Replied 422 (Inr (JObj [(''detail'', JStr ''Invalid version'')]))
   \<and> fst (get_prediction sample_env unprocessable_upstream ''p1'') =
        \<lparr>status = 422, body = JObj [(''detail'', JStr ''Invalid version'')]\<rparr>"
  using upstream_errors_pass_through
    [of 422 sample_env unprocessable_upstream sample_payload
        "create_call ''r8_secret'' sample_payload"
        "JObj [(''detail'', JStr ''Invalid version'')]"
        "''p1''" "status_call ''r8_secret'' ''p1''"
        "JObj [(''detail'', JStr ''Invalid version'')]"]
  by (simp add: post_predictions_def get_prediction_def sample_env_def sample_payload_def
        logged_model_def unprocessable_upstream_def)

text \<open>
  C5, as the code has it. When the outbound call throws (\<open>fetch\<close> rejects, or the
  response is not JSON), \<open>POST /predictions\<close> and \<open>GET /predictions/:id\<close> answer with
  status 500 and the body \<open>{error: "Proxy server error", message: m}\<close>, where the
  \<open>error\<close> field is fixed and \<open>m\<close> is the message of the error that was thrown; and a
  handler never makes more than one outbound call, so nothing is retried.
\<close>

theorem transport_failure_gives_500:
  "length (snd (post_predictions e fetch b)) \<le> 1
   \<and> length (snd (get_prediction e fetch i)) \<le> 1
   \<and> (snd (post_predictions e fetch b) = [c] \<and> thrown (fetch c) = Some msg
        \<longrightarrow> fst (post_predictions e fetch b) =
              \<lparr>status = 500,
               body = JObj [(''error'', JStr ''Proxy server error''), (''message'', JStr msg)]\<rparr>)
   \<and> (snd (get_prediction e fetch i) = [c'] \<and> thrown (fetch c') = Some msg'
        \<longrightarrow> fst (get_prediction e fetch i) =
              \<lparr>status = 500,
               body = JObj [(''error'', JStr ''Proxy server error''), (''message'', JStr msg')]\<rparr>)"
proof -
  have "length (snd (post_predictions e fetch b)) \<le> 1"
    by (simp add: post_predictions_def Let_def split: option.splits sum.splits)
  moreover have "length (snd (get_prediction e fetch i)) \<le> 1"
    by (simp add: get_prediction_def Let_def split: option.splits)
  moreover have "fst (post_predictions e fetch b) = proxy_error msg"
    if "snd (post_predictions e fetch b) = [c]" "thrown (fetch c) = Some msg"
    using post_calls [OF that(1)] that(2) by (auto simp: relay_thrown)
  moreover have "fst (get_prediction e fetch i) = proxy_error msg'"
    if "snd (get_prediction e fetch i) = [c']" "thrown (fetch c') = Some msg'"
    using get_calls [OF that(1)] that(2) by (auto simp: relay_thrown)
  ultimately show ?thesis by (simp add: proxy_error_def)
qed

theorem transport_failure_gives_500_witness:
  "snd (post_predictions sample_env unreachable_upstream sample_payload) =
        [create_call ''r8_secret'' sample_payload]
   \<and> thrown (unreachable_upstream (create_call ''r8_secret'' sample_payload)) =
        Some ''connect ECONNREFUSED''
   \<and> fst (post_predictions sample_env unreachable_upstream sample_payload) =
        \<lparr>status = 500, body = JObj [(''error'', JStr ''Proxy server error''),
                                    (''message'', JStr ''connect ECONNREFUSED'')]\<rparr>
   \<and> snd (get_prediction sample_env unreachable_upstream ''p1'') =
        [status_call ''r8_secret'' ''p1'']
   \<and> thrown (unreachable_upstream (status_call ''r8_secret'' ''p1'')) =
        Some ''connect ECONNREFUSED''
   \<and> fst (get_prediction sample_env unreachable_upstream ''p1'') =
        \<lparr>status = 500, body = JObj [(''error'', JStr ''Proxy server error''),
                                    (''message'', JStr ''connect ECONNREFUSED'')]\<rparr>"
  using transport_failure_gives_500
    [of sample_env unreachable_upstream sample_payload "''p1''"
        "create_call ''r8_secret'' sample_payload" "''connect ECONNREFUSED''"
        "status_call ''r8_secret'' ''p1''" "''connect ECONNREFUSED''"]
  by (simp add: post_predictions_def get_prediction_def sample_env_def sample_payload_def
        logged_model_def unreachable_upstream_def)

text \<open>
  The body of the 500 is not one fixed body: two ways of failing to reach the upstream
  give two different bodies, each with the message of its own error.
\<close>

theorem error_message_echoed:
  "thrown (unreachable_upstream (create_call ''r8_secret'' sample_payload)) =
     Some ''connect ECONNREFUSED''
   \<and> thrown (hung_upstream (create_call ''r8_secret'' sample_payload)) = Some ''socket hang up''
   \<and> body (fst (post_predictions sample_env unreachable_upstream sample_payload)) =
       JObj [(''error'', JStr ''Proxy server error''), (''message'', JStr ''connect ECONNREFUSED'')]
   \<and> body (fst (post_predictions sample_env hung_upstream sample_payload)) =
       JObj [(''error'', JStr ''Proxy server error''), (''message'', JStr ''socket hang up'')]
   \<and> body (fst (post_predictions sample_env unreachable_upstream sample_payload)) \<noteq>
     body (fst (post_predictions sample_env hung_upstream sample_payload))"
  by (simp add: post_predictions_def sample_env_def sample_payload_def logged_model_def
        unreachable_upstream_def hung_upstream_def relay_def proxy_error_def)

section \<open>Unmatched routes\<close>

text \<open>
  C8, as the code has it. A request that is neither an \<open>OPTIONS\<close> nor a \<open>HEAD\<close> request,
  whose body the body parser accepted, whose path percent-decodes, and whose method and
  path match none of the four routes (\<open>GET /\<close>, \<open>POST /predictions\<close>,
  \<open>GET /predictions/:id\<close>, \<open>POST /validate-reset-key\<close>) is answered with status 404 and
  a body that lists the known routes; no outbound call is made.
\<close>

theorem unmatched_route_gives_404:
  assumes "req_method r \<noteq> ''OPTIONS''" and "req_method r \<noteq> ''HEAD''"
    and "req_body r = Inr b"
    and "decodeURIComponent (req_path r) = Some d"
    and "\<not> matches_a_route (req_method r) (req_path r)"
  shows "app e fetch r =
           (Json \<lparr>status = 404,
             body = JObj
               [(''error'', JStr ''Route not found''),
                (''availableRoutes'',
                   JArr [JStr ''GET /'', JStr ''POST /predictions'',
                         JStr ''GET /predictions/:id'', JStr ''POST /validate-reset-key''])]\<rparr>,
            [])"
proof -
  have "match_route (req_method r) (req_path r) = NotFound"
    using assms(5,4) by (rule unmatched_is_not_found)
  with assms(1-4) show ?thesis
    by (simp add: app_def respond_def not_found_def)
qed

theorem unmatched_route_gives_404_witness:
  "''GET'' \<noteq> ''OPTIONS'' \<and> ''GET'' \<noteq> ''HEAD''
   \<and> decodeURIComponent ''/unknown-path'' = Some ''/unknown-path''
   \<and> \<not> matches_a_route ''GET'' ''/unknown-path''
   \<and> app sample_env created_upstream
        \<lparr>req_method = ''GET'', req_path = ''/unknown-path'', req_body = Inr (JObj [])\<rparr> =
       (Json \<lparr>status = 404,
             body = JObj
               [(''error'', JStr ''Route not found''),
                (''availableRoutes'',
                   JArr [JStr ''GET /'', JStr ''POST /predictions'',
                         JStr ''GET /predictions/:id'', JStr ''POST /validate-reset-key''])]\<rparr>,
        [])"
  using unmatched_route_gives_404
    [of "\<lparr>req_method = ''GET'', req_path = ''/unknown-path'', req_body = Inr (JObj [])\<rparr>"
        "JObj []" "''/unknown-path''" sample_env created_upstream]
  by (simp add: matches_a_route_def route_defs)

text \<open>
  Four requests that match none of the four routes and are not answered with the 404
  body: an \<open>OPTIONS\<close> request, which the CORS middleware ends with 204; a body the parser
  rejects and a path that does not decode, which the error-handling middleware answers
  with 500; a \<open>HEAD\<close> request, whose 404 has no body.
\<close>

theorem unmatched_but_not_404_with_list:
  "\<not> matches_a_route ''OPTIONS'' ''/unknown-path''
   \<and> app sample_env created_upstream
        \<lparr>req_method = ''OPTIONS'', req_path = ''/unknown-path'', req_body = Inr (JObj [])\<rparr> =
       (NoBody 204, [])
   \<and> \<not> matches_a_route ''POST'' ''/unknown-path''
   \<and> app sample_env created_upstream
        \<lparr>req_method = ''POST'', req_path = ''/unknown-path'',
         req_body = Inl ''Unexpected end of JSON input''\<rparr> =
       (Json \<lparr>status = 500,
              body = JObj [(''error'', JStr ''Internal server error''),
                           (''message'', JStr ''Something went wrong'')]\<rparr>, [])
   \<and> \<not> matches_a_route ''GET'' ''/unknown%zz''
   \<and> app sample_env created_upstream
        \<lparr>req_method = ''GET'', req_path = ''/unknown%zz'', req_body = Inr (JObj [])\<rparr> =
       (Json \<lparr>status = 500,
              body = JObj [(''error'', JStr ''Internal server error''),
                           (''message'', JStr ''Something went wrong'')]\<rparr>, [])
   \<and> \<not> matches_a_route ''HEAD'' ''/unknown-path''
   \<and> app sample_env created_upstream
        \<lparr>req_method = ''HEAD'', req_path = ''/unknown-path'', req_body = Inr (JObj [])\<rparr> =
       (NoBody 404, [])"
  by (simp add: app_def respond_def error_handler_def not_found_def sample_env_def
        matches_a_route_def route_defs)

end
